theory Spec2Isabelle
  imports Main
begin

section \<open>The data fetcher of \<^verbatim>\<open>src/lib/api/yahoo_finance.py\<close>\<close>

text \<open>
  The script has one function, \<^verbatim>\<open>get_stock_data\<close>, and a command-line
      block run under
  \<^verbatim>\<open>if __name__ == "__main__"\<close>. Everything it touches beyond its own
      arguments is
  foreign code: the class \<^verbatim>\<open>ApiClient\<close> of the module
      \<^verbatim>\<open>data_api\<close>, its method
  \<^verbatim>\<open>call_api\<close>, and \<^verbatim>\<open>json.dumps\<close> of the standard
      library. The embedding takes these
  three as parameters, threads an opaque outside world through the first two, and keeps
  a log of the calls made to \<^verbatim>\<open>call_api\<close> and of the lines printed.
\<close>

subsection \<open>Values, the query dictionary, the outside world\<close>

text \<open>The values stored in the query: Python strings and the Boolean \<^verbatim>\<open>True\<close>.\<close>

datatype pyval = Str string | Bool bool

text \<open>
  A dictionary literal with string keys, as the list of its entries in the order the
  literal writes them; \<^term>\<open>map_of\<close> reads it by key.
\<close>

type_synonym dict = "(string \<times> pyval) list"

text \<open>
  The foreign code. \<open>'w\<close> is the outside world (network, provider, configuration),
  \<open>'x\<close> the exceptions foreign code may raise, \<open>'c\<close> the client object,
      \<open>'r\<close> the response.
  A call either raises (\<open>Inl\<close>) or returns (\<open>Inr\<close>), and leaves a new
      world behind.
  \<^verbatim>\<open>json.dumps\<close> touches no world: it returns the text or raises.
\<close>

record ('w, 'x, 'c, 'r) env =
  ApiClient :: "'w \<Rightarrow> ('x + 'c) \<times> 'w"
  call_api :: "'c \<Rightarrow> string \<Rightarrow> dict \<Rightarrow> 'w \<Rightarrow> ('x +
      'r) \<times> 'w"
  json_dumps :: "'r \<Rightarrow> 'x + string"

text \<open>
  The state of a run: the outside world, the calls made to \<^verbatim>\<open>call_api\<close>
      so far (endpoint
  name and query, oldest first) and the lines printed to standard output so far.
\<close>

record 'w state =
  world :: 'w
  calls :: "(string \<times> dict) list"
  stdout :: "string list"

subsection \<open>\<^verbatim>\<open>get_stock_data\<close> (lines 6 to 29)\<close>

text \<open>
  The dictionary literal of lines 21 to 27, passed as the keyword argument
  \<^verbatim>\<open>query=\<close>.
\<close>

definition query :: "string \<Rightarrow> string \<Rightarrow> string \<Rightarrow> dict" where
  "query symbol interval range' =
     [(''symbol'', Str symbol),
      (''interval'', Str interval),
      (''range'', Str range'),
      (''region'', Str ''TW''),
      (''includeAdjustedClose'', Bool True)]"

text \<open>
  \<^verbatim>\<open>def get_stock_data(symbol, interval='1d', range='1y')\<close>. An omitted
      parameter is
  \<open>None\<close> and takes the default of the signature. Line 18 builds the client, line 21
  makes the call, line 29 returns the response as it came. Nothing is caught, so an
  exception of either foreign call ends the function with that exception.
\<close>

definition get_stock_data ::
  "('w, 'x, 'c, 'r) env \<Rightarrow> string \<Rightarrow> string option \<Rightarrow> string
      option \<Rightarrow> 'w state
     \<Rightarrow> ('x + 'r) \<times> 'w state" where
  "get_stock_data env symbol interval_arg range_arg s =
     (let interval = (case interval_arg of None \<Rightarrow> ''1d'' | Some i \<Rightarrow> i);
          range' = (case range_arg of None \<Rightarrow> ''1y'' | Some r \<Rightarrow> r)
      in case ApiClient env (world s) of
           (Inl exn, w1) \<Rightarrow> (Inl exn, s\<lparr>world := w1\<rparr>)
         | (Inr client, w1) \<Rightarrow>
             (case call_api env client ''YahooFinance/get_stock_chart''
                     (query symbol interval range') w1 of
                (response, w2) \<Rightarrow>
                  (response,
                   s\<lparr>world := w2,
                     calls := calls s @
                       [(''YahooFinance/get_stock_chart'', query symbol interval
                           range')]\<rparr>)))"

subsection \<open>The command-line block (lines 31 to 54)\<close>

text \<open>
  \<open>argv\<close> is \<^verbatim>\<open>sys.argv\<close>: the script's name, then the
      arguments. Each of the three
  reads is guarded by the length test of its own \<^verbatim>\<open>if\<close>, so no read is
      out of range.
  The result is \<open>Inr ()\<close> when the script ends normally and \<open>Inl\<close> of
      the uncaught
  exception otherwise.
\<close>

definition main ::
  "('w, 'x, 'c, 'r) env \<Rightarrow> string list \<Rightarrow> 'w state \<Rightarrow> ('x +
      unit) \<times> 'w state" where
  "main env argv s =
     (let symbol = (if length argv \<ge> 2 then argv ! 1 else ''2330.TW'');
          interval = (if length argv \<ge> 3 then argv ! 2 else ''1d'');
          range_param = (if length argv \<ge> 4 then argv ! 3 else ''1y'')
      in case get_stock_data env symbol (Some interval) (Some range_param) s of
           (Inl exn, s1) \<Rightarrow> (Inl exn, s1)
         | (Inr data, s1) \<Rightarrow>
             (case json_dumps env data of
                Inl exn \<Rightarrow> (Inl exn, s1)
              | Inr text \<Rightarrow> (Inr (), s1\<lparr>stdout := stdout s1 @ [text]\<rparr>)))"

text \<open>The state in which the operating system starts the script.\<close>

definition initial :: "'w \<Rightarrow> 'w state" where
  "initial w = \<lparr>world = w, calls = [], stdout = []\<rparr>"

subsection \<open>The script as a transition system\<close>

text \<open>
  The control points of a run of the script, with the values live at each: before the
  argument defaulting (line 33), before the client is built (line 18), before the call
  (line 21), before \<^verbatim>\<open>json.dumps\<close> and before
      \<^verbatim>\<open>print\<close> (line 54), and the two ways a
  run ends.
\<close>

datatype ('x, 'c, 'r) control =
    Start "string list"
  | NewClient string string string
  | CallApi 'c string string string
  | Dumps 'r
  | Print string
  | Exit
  | Raise 'x

inductive step ::
  "('w, 'x, 'c, 'r) env \<Rightarrow> ('x, 'c, 'r) control \<times> 'w state
     \<Rightarrow> ('x, 'c, 'r) control \<times> 'w state \<Rightarrow> bool"
  for env :: "('w, 'x, 'c, 'r) env" where
  args:
    "step env (Start argv, s)
       (NewClient (if length argv \<ge> 2 then argv ! 1 else ''2330.TW'')
                  (if length argv \<ge> 3 then argv ! 2 else ''1d'')
                  (if length argv \<ge> 4 then argv ! 3 else ''1y''), s)"
| client_raises:
    "ApiClient env (world s) = (Inl exn, w1) \<Longrightarrow>
     step env (NewClient symbol interval range', s) (Raise exn, s\<lparr>world := w1\<rparr>)"
| client_built:
    "ApiClient env (world s) = (Inr client, w1) \<Longrightarrow>
     step env (NewClient symbol interval range', s)
       (CallApi client symbol interval range', s\<lparr>world := w1\<rparr>)"
| call_raises:
    "call_api env client ''YahooFinance/get_stock_chart''
       (query symbol interval range') (world s) = (Inl exn, w2) \<Longrightarrow>
     step env (CallApi client symbol interval range', s)
       (Raise exn,
        s\<lparr>world := w2,
          calls := calls s @
            [(''YahooFinance/get_stock_chart'', query symbol interval range')]\<rparr>)"
| call_returns:
    "call_api env client ''YahooFinance/get_stock_chart''
       (query symbol interval range') (world s) = (Inr response, w2) \<Longrightarrow>
     step env (CallApi client symbol interval range', s)
       (Dumps response,
        s\<lparr>world := w2,
          calls := calls s @
            [(''YahooFinance/get_stock_chart'', query symbol interval range')]\<rparr>)"
| dumps_raises:
    "json_dumps env data = Inl exn \<Longrightarrow> step env (Dumps data, s) (Raise exn, s)"
| dumps_returns:
    "json_dumps env data = Inr text \<Longrightarrow> step env (Dumps data, s) (Print text, s)"
| print:
    "step env (Print text, s) (Exit, s\<lparr>stdout := stdout s @ [text]\<rparr>)"

text \<open>The configuration in which a result of \<^const>\<open>main\<close> leaves the script.\<close>

fun final :: "('x + unit) \<times> 'w state \<Rightarrow> ('x, 'c, 'r) control \<times> 'w
    state" where
  "final (Inl exn, s) = (Raise exn, s)"
| "final (Inr u, s) = (Exit, s)"

subsection \<open>A stand-in for the foreign code\<close>

text \<open>
  For concrete runs: a provider whose world is the number of requests it has received.
  Building the client always succeeds, every call gives the same \<open>answer\<close> (an
  exception or a response), and the response is printed as it is.
\<close>

abbreviation stub :: "string + string \<Rightarrow> (nat, string, unit, string) env" where
  "stub answer \<equiv>
     \<lparr>ApiClient = (\<lambda>w. (Inr (), w)),
      call_api = (\<lambda>client endpoint q w. (answer, Suc w)),
      json_dumps = (\<lambda>data. Inr data)\<rparr>"

subsection \<open>\<^verbatim>\<open>json.dumps\<close> on Python values\<close>







section \<open>Properties\<close>

subsection \<open>What \<^const>\<open>get_stock_data\<close> and \<^const>\<open>main\<close>
    compute\<close>

lemma get_stock_data_client_raises:
  "ApiClient env (world s) = (Inl exn, w1) \<Longrightarrow>
   get_stock_data env symbol interval_arg range_arg s = (Inl exn, s\<lparr>world := w1\<rparr>)"
  by (simp add: get_stock_data_def)

lemma get_stock_data_called:
  "ApiClient env (world s) = (Inr client, w1) \<Longrightarrow>
   get_stock_data env symbol interval_arg range_arg s =
     (fst (call_api env client ''YahooFinance/get_stock_chart''
             (query symbol (case interval_arg of None \<Rightarrow> ''1d'' | Some i \<Rightarrow> i)
                (case range_arg of None \<Rightarrow> ''1y'' | Some r \<Rightarrow> r)) w1),
      s\<lparr>world := snd (call_api env client ''YahooFinance/get_stock_chart''
             (query symbol (case interval_arg of None \<Rightarrow> ''1d'' | Some i \<Rightarrow> i)
                (case range_arg of None \<Rightarrow> ''1y'' | Some r \<Rightarrow> r)) w1),
        calls := calls s @
          [(''YahooFinance/get_stock_chart'',
            query symbol (case interval_arg of None \<Rightarrow> ''1d'' | Some i \<Rightarrow> i)
              (case range_arg of None \<Rightarrow> ''1y'' | Some r \<Rightarrow> r))]\<rparr>)"
  by (simp add: get_stock_data_def Let_def split: prod.splits)

subsection \<open>The query\<close>

text \<open>
  Claim C1. Whatever the symbol, the interval and the range are, given or omitted, the
  query that \<^const>\<open>get_stock_data\<close> hands to \<^verbatim>\<open>call_api\<close>
      has the entry
  \<^verbatim>\<open>region\<close> with the value \<^verbatim>\<open>"TW"\<close> and the entry
      \<^verbatim>\<open>includeAdjustedClose\<close> with the
  value \<^verbatim>\<open>True\<close>. The query \<open>q\<close> of the statement is the one
      the call is made with: the
  function's result and the new world are those of that call, and the call is logged
  with \<open>q\<close>. (When the client cannot be built no query is made.)
\<close>

theorem query_fixes_region_and_adjusted_close:
  assumes "ApiClient env (world s) = (Inr client, w1)"
  shows "\<exists>q. get_stock_data env symbol interval_arg range_arg s =
               (fst (call_api env client ''YahooFinance/get_stock_chart'' q w1),
                s\<lparr>world := snd (call_api env client ''YahooFinance/get_stock_chart'' q w1),
                  calls := calls s @ [(''YahooFinance/get_stock_chart'', q)]\<rparr>)
             \<and> map_of q ''region'' = Some (Str ''TW'')
             \<and> map_of q ''includeAdjustedClose'' = Some (Bool True)"
proof -
  let ?q = "query symbol (case interval_arg of None \<Rightarrow> ''1d'' | Some i \<Rightarrow> i)
              (case range_arg of None \<Rightarrow> ''1y'' | Some r \<Rightarrow> r)"
  have "map_of ?q ''region'' = Some (Str ''TW'')"
    by (simp add: query_def)
  moreover have "map_of ?q ''includeAdjustedClose'' = Some (Bool True)"
    by (simp add: query_def)
  ultimately show ?thesis
    using get_stock_data_called [OF assms, of symbol interval_arg range_arg] by blast
qed

text \<open>An instance: an unlisted interval, the range omitted.\<close>

theorem query_fixes_region_and_adjusted_close_witness:
  "ApiClient (stub (Inr ''{}'')) (world (initial (0::nat))) = (Inr (), 0) \<and>
   (\<exists>q. get_stock_data (stub (Inr ''{}'')) ''2330.TW'' (Some ''3d'') None (initial
       (0::nat)) =
               (fst (call_api (stub (Inr ''{}'')) () ''YahooFinance/get_stock_chart'' q 0),
                (initial (0::nat))\<lparr>world := snd (call_api (stub (Inr ''{}'')) ()
                    ''YahooFinance/get_stock_chart'' q 0),
                  calls := calls (initial (0::nat)) @ [(''YahooFinance/get_stock_chart'',
                      q)]\<rparr>)
             \<and> map_of q ''region'' = Some (Str ''TW'')
             \<and> map_of q ''includeAdjustedClose'' = Some (Bool True))"
proof -
  have h: "ApiClient (stub (Inr ''{}'')) (world (initial (0::nat))) = (Inr (), 0)"
    by (simp add: initial_def)
  show ?thesis
    using h query_fixes_region_and_adjusted_close [OF h, of "''2330.TW''" "Some ''3d''" None]
    by (intro conjI) assumption+
qed


lemma main_unfold:
  "main env argv s =
     (case get_stock_data env
             (if length argv \<ge> 2 then argv ! 1 else ''2330.TW'')
             (Some (if length argv \<ge> 3 then argv ! 2 else ''1d''))
             (Some (if length argv \<ge> 4 then argv ! 3 else ''1y'')) s of
        (Inl exn, s1) \<Rightarrow> (Inl exn, s1)
      | (Inr data, s1) \<Rightarrow>
          (case json_dumps env data of
             Inl exn \<Rightarrow> (Inl exn, s1)
           | Inr text \<Rightarrow> (Inr (), s1\<lparr>stdout := stdout s1 @ [text]\<rparr>)))"
  by (simp add: main_def Let_def)

lemma main_calls:
  "calls (snd (main env argv s)) =
   calls (snd (get_stock_data env
             (if length argv \<ge> 2 then argv ! 1 else ''2330.TW'')
             (Some (if length argv \<ge> 3 then argv ! 2 else ''1d''))
             (Some (if length argv \<ge> 4 then argv ! 3 else ''1y'')) s))"
  by (simp add: main_unfold split: prod.splits sum.splits)

text \<open>
  With the client built, a run of the script is its one call and what follows it: the
  call is made on that client, in the world the constructor left, with the endpoint
  name and the query of the three values the command-line block chose; the script
  then raises what the call raised, or hands the response to
  \<^verbatim>\<open>json.dumps\<close> and prints its text.
\<close>

lemma main_called:
  assumes "ApiClient env (world s) = (Inr client, w1)"
      and "symbol = (if length argv \<ge> 2 then argv ! 1 else ''2330.TW'')"
      and "interval = (if length argv \<ge> 3 then argv ! 2 else ''1d'')"
      and "range_param = (if length argv \<ge> 4 then argv ! 3 else ''1y'')"
  shows "main env argv s =
     (case call_api env client ''YahooFinance/get_stock_chart''
             (query symbol interval range_param) w1 of
        (Inl exn, w2) \<Rightarrow>
          (Inl exn,
           s\<lparr>world := w2,
             calls := calls s @
               [(''YahooFinance/get_stock_chart'', query symbol interval range_param)]\<rparr>)
      | (Inr data, w2) \<Rightarrow>
          (case json_dumps env data of
             Inl exn \<Rightarrow>
               (Inl exn,
                s\<lparr>world := w2,
                  calls := calls s @
                    [(''YahooFinance/get_stock_chart'',
                      query symbol interval range_param)]\<rparr>)
           | Inr line \<Rightarrow>
               (Inr (),
                s\<lparr>world := w2,
                  calls := calls s @
                    [(''YahooFinance/get_stock_chart'', query symbol interval range_param)],
                  stdout := stdout s @ [line]\<rparr>)))"
  unfolding assms(2-4)
  by (simp add: main_unfold get_stock_data_called [OF assms(1)]
        split: prod.splits sum.splits split del: if_split)

subsection \<open>Command-line defaults\<close>

text \<open>
  Claim C3. Run with no command-line argument (\<^verbatim>\<open>sys.argv\<close> holds the
  script's name at most), the script makes its call with the query of the default
  triple: symbol \<^verbatim>\<open>2330.TW\<close>, interval \<^verbatim>\<open>1d\<close>, range
  \<^verbatim>\<open>1y\<close>. The query \<open>q\<close> of the statement is the one handed to
  \<^verbatim>\<open>call_api\<close>: the outcome of the run, the world it leaves and its output
  are those of the call made with \<open>q\<close> on the client just built, and the call is
  logged with \<open>q\<close>.
\<close>

theorem no_arguments_default_triple:
  assumes "length argv \<le> 1" and "ApiClient env (world s) = (Inr client, w1)"
  shows "\<exists>q. main env argv s =
           (case call_api env client ''YahooFinance/get_stock_chart'' q w1 of
              (Inl exn, w2) \<Rightarrow>
                (Inl exn,
                 s\<lparr>world := w2,
                   calls := calls s @ [(''YahooFinance/get_stock_chart'', q)]\<rparr>)
            | (Inr data, w2) \<Rightarrow>
                (case json_dumps env data of
                   Inl exn \<Rightarrow>
                     (Inl exn,
                      s\<lparr>world := w2,
                        calls := calls s @ [(''YahooFinance/get_stock_chart'', q)]\<rparr>)
                 | Inr line \<Rightarrow>
                     (Inr (),
                      s\<lparr>world := w2,
                        calls := calls s @ [(''YahooFinance/get_stock_chart'', q)],
                        stdout := stdout s @ [line]\<rparr>)))
         \<and> q = [(''symbol'', Str ''2330.TW''), (''interval'', Str ''1d''),
                (''range'', Str ''1y''), (''region'', Str ''TW''),
                (''includeAdjustedClose'', Bool True)]"
proof -
  from assms(1)
  have short: "\<not> 2 \<le> length argv" "\<not> 3 \<le> length argv" "\<not> 4 \<le> length argv"
    by simp_all
  let ?q = "query ''2330.TW'' ''1d'' ''1y''"
  have lit: "?q =
               [(''symbol'', Str ''2330.TW''), (''interval'', Str ''1d''),
                (''range'', Str ''1y''), (''region'', Str ''TW''),
                (''includeAdjustedClose'', Bool True)]"
    by (simp add: query_def)
  have run: "main env argv s =
           (case call_api env client ''YahooFinance/get_stock_chart'' ?q w1 of
              (Inl exn, w2) \<Rightarrow>
                (Inl exn,
                 s\<lparr>world := w2,
                   calls := calls s @ [(''YahooFinance/get_stock_chart'', ?q)]\<rparr>)
            | (Inr data, w2) \<Rightarrow>
                (case json_dumps env data of
                   Inl exn \<Rightarrow>
                     (Inl exn,
                      s\<lparr>world := w2,
                        calls := calls s @ [(''YahooFinance/get_stock_chart'', ?q)]\<rparr>)
                 | Inr line \<Rightarrow>
                     (Inr (),
                      s\<lparr>world := w2,
                        calls := calls s @ [(''YahooFinance/get_stock_chart'', ?q)],
                        stdout := stdout s @ [line]\<rparr>)))"
    by (rule main_called [OF assms(2)]) (simp_all add: short)
  show ?thesis
    by (rule exI [of _ ?q]) (rule conjI [OF run lit])
qed

text \<open>An instance: the script's name alone; the provider has then received one request.\<close>

theorem no_arguments_default_triple_witness:
  "length [''yahoo_finance.py''] \<le> 1 \<and>
   ApiClient (stub (Inr ''{}'')) (world (initial (0::nat))) = (Inr (), 0) \<and>
   main (stub (Inr ''{}'')) [''yahoo_finance.py''] (initial (0::nat)) =
     (Inr (),
      \<lparr>world = 1,
       calls = [(''YahooFinance/get_stock_chart'',
                 [(''symbol'', Str ''2330.TW''), (''interval'', Str ''1d''),
                  (''range'', Str ''1y''), (''region'', Str ''TW''),
                  (''includeAdjustedClose'', Bool True)])],
       stdout = [''{}'']\<rparr>)"
proof -
  have len: "length [''yahoo_finance.py''] \<le> 1"
    by simp
  have built: "ApiClient (stub (Inr ''{}'')) (world (initial (0::nat))) = (Inr (), 0)"
    by (simp add: initial_def)
  have run: "main (stub (Inr ''{}'')) [''yahoo_finance.py''] (initial (0::nat)) =
     (Inr (),
      \<lparr>world = 1,
       calls = [(''YahooFinance/get_stock_chart'',
                 [(''symbol'', Str ''2330.TW''), (''interval'', Str ''1d''),
                  (''range'', Str ''1y''), (''region'', Str ''TW''),
                  (''includeAdjustedClose'', Bool True)])],
       stdout = [''{}'']\<rparr>)"
    using no_arguments_default_triple [OF len built] by (simp add: initial_def)
  from len built run show ?thesis
    by (intro conjI)
qed

text \<open>
  Claim C7. Run with the one argument \<^verbatim>\<open>AAPL\<close>, the script makes its call
  with the symbol \<^verbatim>\<open>AAPL\<close>, and interval and range keep the defaults
  \<^verbatim>\<open>1d\<close> and \<^verbatim>\<open>1y\<close>. Again \<open>q\<close> is the query handed to
  \<^verbatim>\<open>call_api\<close>: the run is the call made with \<open>q\<close> and what
  follows from its answer.
\<close>

theorem one_argument_sets_symbol_only:
  assumes "ApiClient env (world s) = (Inr client, w1)"
  shows "\<exists>q. main env [prog, ''AAPL''] s =
           (case call_api env client ''YahooFinance/get_stock_chart'' q w1 of
              (Inl exn, w2) \<Rightarrow>
                (Inl exn,
                 s\<lparr>world := w2,
                   calls := calls s @ [(''YahooFinance/get_stock_chart'', q)]\<rparr>)
            | (Inr data, w2) \<Rightarrow>
                (case json_dumps env data of
                   Inl exn \<Rightarrow>
                     (Inl exn,
                      s\<lparr>world := w2,
                        calls := calls s @ [(''YahooFinance/get_stock_chart'', q)]\<rparr>)
                 | Inr line \<Rightarrow>
                     (Inr (),
                      s\<lparr>world := w2,
                        calls := calls s @ [(''YahooFinance/get_stock_chart'', q)],
                        stdout := stdout s @ [line]\<rparr>)))
         \<and> q = [(''symbol'', Str ''AAPL''), (''interval'', Str ''1d''),
                (''range'', Str ''1y''), (''region'', Str ''TW''),
                (''includeAdjustedClose'', Bool True)]"
proof -
  let ?q = "query ''AAPL'' ''1d'' ''1y''"
  have lit: "?q =
               [(''symbol'', Str ''AAPL''), (''interval'', Str ''1d''),
                (''range'', Str ''1y''), (''region'', Str ''TW''),
                (''includeAdjustedClose'', Bool True)]"
    by (simp add: query_def)
  have run: "main env [prog, ''AAPL''] s =
           (case call_api env client ''YahooFinance/get_stock_chart'' ?q w1 of
              (Inl exn, w2) \<Rightarrow>
                (Inl exn,
                 s\<lparr>world := w2,
                   calls := calls s @ [(''YahooFinance/get_stock_chart'', ?q)]\<rparr>)
            | (Inr data, w2) \<Rightarrow>
                (case json_dumps env data of
                   Inl exn \<Rightarrow>
                     (Inl exn,
                      s\<lparr>world := w2,
                        calls := calls s @ [(''YahooFinance/get_stock_chart'', ?q)]\<rparr>)
                 | Inr line \<Rightarrow>
                     (Inr (),
                      s\<lparr>world := w2,
                        calls := calls s @ [(''YahooFinance/get_stock_chart'', ?q)],
                        stdout := stdout s @ [line]\<rparr>)))"
    by (rule main_called [OF assms]) simp_all
  show ?thesis
    by (rule exI [of _ ?q]) (rule conjI [OF run lit])
qed

text \<open>An instance.\<close>

theorem one_argument_sets_symbol_only_witness:
  "ApiClient (stub (Inr ''{}'')) (world (initial (0::nat))) = (Inr (), 0) \<and>
   main (stub (Inr ''{}'')) [''yahoo_finance.py'', ''AAPL''] (initial (0::nat)) =
     (Inr (),
      \<lparr>world = 1,
       calls = [(''YahooFinance/get_stock_chart'',
                 [(''symbol'', Str ''AAPL''), (''interval'', Str ''1d''),
                  (''range'', Str ''1y''), (''region'', Str ''TW''),
                  (''includeAdjustedClose'', Bool True)])],
       stdout = [''{}'']\<rparr>)"
proof -
  have built: "ApiClient (stub (Inr ''{}'')) (world (initial (0::nat))) = (Inr (), 0)"
    by (simp add: initial_def)
  have run: "main (stub (Inr ''{}'')) [''yahoo_finance.py'', ''AAPL''] (initial (0::nat)) =
     (Inr (),
      \<lparr>world = 1,
       calls = [(''YahooFinance/get_stock_chart'',
                 [(''symbol'', Str ''AAPL''), (''interval'', Str ''1d''),
                  (''range'', Str ''1y''), (''region'', Str ''TW''),
                  (''includeAdjustedClose'', Bool True)])],
       stdout = [''{}'']\<rparr>)"
    using one_argument_sets_symbol_only [OF built, of "''yahoo_finance.py''"]
    by (simp add: initial_def)
  from built run show ?thesis
    by (intro conjI)
qed

text \<open>
  Claim C8. Run with the three arguments \<^verbatim>\<open>0050.TW\<close>,
  \<^verbatim>\<open>1wk\<close>, \<^verbatim>\<open>5y\<close>, the script makes its call with exactly
  the query of five entries symbol \<^verbatim>\<open>0050.TW\<close>, interval
  \<^verbatim>\<open>1wk\<close>, range \<^verbatim>\<open>5y\<close>, region \<^verbatim>\<open>TW\<close>,
  includeAdjustedClose \<^verbatim>\<open>True\<close>: as the list of its entries, as a
  mapping, and with these five keys and no other. The query \<open>q\<close> is the one
  handed to \<^verbatim>\<open>call_api\<close>: the run is the call made with \<open>q\<close> and
  what follows from its answer.
\<close>

theorem three_arguments_exact_query:
  assumes "ApiClient env (world s) = (Inr client, w1)"
  shows "\<exists>q. main env [prog, ''0050.TW'', ''1wk'', ''5y''] s =
           (case call_api env client ''YahooFinance/get_stock_chart'' q w1 of
              (Inl exn, w2) \<Rightarrow>
                (Inl exn,
                 s\<lparr>world := w2,
                   calls := calls s @ [(''YahooFinance/get_stock_chart'', q)]\<rparr>)
            | (Inr data, w2) \<Rightarrow>
                (case json_dumps env data of
                   Inl exn \<Rightarrow>
                     (Inl exn,
                      s\<lparr>world := w2,
                        calls := calls s @ [(''YahooFinance/get_stock_chart'', q)]\<rparr>)
                 | Inr line \<Rightarrow>
                     (Inr (),
                      s\<lparr>world := w2,
                        calls := calls s @ [(''YahooFinance/get_stock_chart'', q)],
                        stdout := stdout s @ [line]\<rparr>)))
         \<and> q = [(''symbol'', Str ''0050.TW''), (''interval'', Str ''1wk''),
                (''range'', Str ''5y''), (''region'', Str ''TW''),
                (''includeAdjustedClose'', Bool True)]
         \<and> map_of q = [''symbol'' \<mapsto> Str ''0050.TW'', ''interval'' \<mapsto> Str ''1wk'',
                       ''range'' \<mapsto> Str ''5y'', ''region'' \<mapsto> Str ''TW'',
                       ''includeAdjustedClose'' \<mapsto> Bool True]
         \<and> dom (map_of q) =
             {''symbol'', ''interval'', ''range'', ''region'', ''includeAdjustedClose''}"
proof -
  let ?q = "query ''0050.TW'' ''1wk'' ''5y''"
  have lit: "?q = [(''symbol'', Str ''0050.TW''), (''interval'', Str ''1wk''),
                   (''range'', Str ''5y''), (''region'', Str ''TW''),
                   (''includeAdjustedClose'', Bool True)]"
    by (simp add: query_def)
  have as_map: "map_of ?q = [''symbol'' \<mapsto> Str ''0050.TW'', ''interval'' \<mapsto> Str ''1wk'',
                         ''range'' \<mapsto> Str ''5y'', ''region'' \<mapsto> Str ''TW'',
                         ''includeAdjustedClose'' \<mapsto> Bool True]"
    by (rule ext) (simp add: lit)
  have keys: "dom (map_of ?q) =
               {''symbol'', ''interval'', ''range'', ''region'', ''includeAdjustedClose''}"
    by (simp add: lit dom_map_of_conv_image_fst)
  have run: "main env [prog, ''0050.TW'', ''1wk'', ''5y''] s =
           (case call_api env client ''YahooFinance/get_stock_chart'' ?q w1 of
              (Inl exn, w2) \<Rightarrow>
                (Inl exn,
                 s\<lparr>world := w2,
                   calls := calls s @ [(''YahooFinance/get_stock_chart'', ?q)]\<rparr>)
            | (Inr data, w2) \<Rightarrow>
                (case json_dumps env data of
                   Inl exn \<Rightarrow>
                     (Inl exn,
                      s\<lparr>world := w2,
                        calls := calls s @ [(''YahooFinance/get_stock_chart'', ?q)]\<rparr>)
                 | Inr line \<Rightarrow>
                     (Inr (),
                      s\<lparr>world := w2,
                        calls := calls s @ [(''YahooFinance/get_stock_chart'', ?q)],
                        stdout := stdout s @ [line]\<rparr>)))"
    by (rule main_called [OF assms]) simp_all
  show ?thesis
    by (rule exI [of _ ?q]) (rule conjI [OF run conjI [OF lit conjI [OF as_map keys]]])
qed

text \<open>An instance.\<close>

theorem three_arguments_exact_query_witness:
  "ApiClient (stub (Inr ''{}'')) (world (initial (0::nat))) = (Inr (), 0) \<and>
   main (stub (Inr ''{}'')) [''yahoo_finance.py'', ''0050.TW'', ''1wk'', ''5y'']
       (initial (0::nat)) =
     (Inr (),
      \<lparr>world = 1,
       calls = [(''YahooFinance/get_stock_chart'',
                 [(''symbol'', Str ''0050.TW''), (''interval'', Str ''1wk''),
                  (''range'', Str ''5y''), (''region'', Str ''TW''),
                  (''includeAdjustedClose'', Bool True)])],
       stdout = [''{}'']\<rparr>)"
proof -
  have built: "ApiClient (stub (Inr ''{}'')) (world (initial (0::nat))) = (Inr (), 0)"
    by (simp add: initial_def)
  have run: "main (stub (Inr ''{}'')) [''yahoo_finance.py'', ''0050.TW'', ''1wk'', ''5y'']
       (initial (0::nat)) =
     (Inr (),
      \<lparr>world = 1,
       calls = [(''YahooFinance/get_stock_chart'',
                 [(''symbol'', Str ''0050.TW''), (''interval'', Str ''1wk''),
                  (''range'', Str ''5y''), (''region'', Str ''TW''),
                  (''includeAdjustedClose'', Bool True)])],
       stdout = [''{}'']\<rparr>)"
    using three_arguments_exact_query [OF built, of "''yahoo_finance.py''"]
    by (simp add: initial_def)
  from built run show ?thesis
    by (intro conjI)
qed

subsection \<open>Defaults of the signature\<close>

text \<open>
  Claim C9. Calling \<^const>\<open>get_stock_data\<close> with interval and range omitted is
      the same
  as calling it with \<^verbatim>\<open>1d\<close> and \<^verbatim>\<open>1y\<close> (and
      likewise with one of the two omitted), in
  the result and in the state it leaves. These are the values the command-line block
  fills in: the script run with a symbol as its only argument does what it would do
  had it made the direct call with both parameters omitted.
\<close>

theorem omitted_parameters_default_like_cli:
  "get_stock_data env symbol None None s = get_stock_data env symbol (Some ''1d'') (Some ''1y'') s
   \<and> get_stock_data env symbol None range_arg s = get_stock_data env symbol (Some ''1d'')
       range_arg s
   \<and> get_stock_data env symbol interval_arg None s =
       get_stock_data env symbol interval_arg (Some ''1y'') s
   \<and> main env [prog, symbol] s =
       (case get_stock_data env symbol None None s of
          (Inl exn, s1) \<Rightarrow> (Inl exn, s1)
        | (Inr data, s1) \<Rightarrow>
            (case json_dumps env data of
               Inl exn \<Rightarrow> (Inl exn, s1)
             | Inr text \<Rightarrow> (Inr (), s1\<lparr>stdout := stdout s1 @ [text]\<rparr>)))"
proof -
  have both: "get_stock_data env symbol None None s =
              get_stock_data env symbol (Some ''1d'') (Some ''1y'') s"
    by (simp add: get_stock_data_def)
  have first: "get_stock_data env symbol None range_arg s =
               get_stock_data env symbol (Some ''1d'') range_arg s"
    by (simp add: get_stock_data_def)
  have second: "get_stock_data env symbol interval_arg None s =
                get_stock_data env symbol interval_arg (Some ''1y'') s"
    by (simp add: get_stock_data_def)
  have cli: "main env [prog, symbol] s =
       (case get_stock_data env symbol None None s of
          (Inl exn, s1) \<Rightarrow> (Inl exn, s1)
        | (Inr data, s1) \<Rightarrow>
            (case json_dumps env data of
               Inl exn \<Rightarrow> (Inl exn, s1)
             | Inr text \<Rightarrow> (Inr (), s1\<lparr>stdout := stdout s1 @ [text]\<rparr>)))"
    by (simp add: main_unfold both)
  from both first second cli show ?thesis
    by (intro conjI)
qed

subsection \<open>No local validation\<close>

text \<open>
  Claim C4. The function checks none of its three strings. Once the client is built,
  whatever the symbol, the interval (\<^verbatim>\<open>3d\<close>, say) and the range are, the
      call is made,
  with a query that holds the three strings unchanged under \<^verbatim>\<open>symbol\<close>,
      \<^verbatim>\<open>interval\<close>
  and \<^verbatim>\<open>range\<close>, and the function's result is the result of that call: if the
  function raises, it is the call that raised.
\<close>

theorem no_local_validation:
  assumes built: "ApiClient env (world s) = (Inr client, w1)"
  shows "\<exists>q. get_stock_data env symbol (Some interval) (Some range') s =
               (fst (call_api env client ''YahooFinance/get_stock_chart'' q w1),
                s\<lparr>world := snd (call_api env client ''YahooFinance/get_stock_chart'' q w1),
                  calls := calls s @ [(''YahooFinance/get_stock_chart'', q)]\<rparr>)
           \<and> map_of q ''symbol'' = Some (Str symbol)
           \<and> map_of q ''interval'' = Some (Str interval)
           \<and> map_of q ''range'' = Some (Str range')
           \<and> (\<forall>exn. fst (get_stock_data env symbol (Some interval) (Some range') s)
               = Inl exn
                 \<longrightarrow> fst (call_api env client ''YahooFinance/get_stock_chart'' q
                     w1) = Inl exn)"
proof -
  let ?q = "query symbol interval range'"
  have run: "get_stock_data env symbol (Some interval) (Some range') s =
               (fst (call_api env client ''YahooFinance/get_stock_chart'' ?q w1),
                s\<lparr>world := snd (call_api env client ''YahooFinance/get_stock_chart'' ?q w1),
                  calls := calls s @ [(''YahooFinance/get_stock_chart'', ?q)]\<rparr>)"
    using get_stock_data_called [OF built, of symbol "Some interval" "Some range'"] by simp
  have sym: "map_of ?q ''symbol'' = Some (Str symbol)"
    by (simp add: query_def)
  have int: "map_of ?q ''interval'' = Some (Str interval)"
    by (simp add: query_def)
  have rng: "map_of ?q ''range'' = Some (Str range')"
    by (simp add: query_def)
  have only: "\<forall>exn. fst (get_stock_data env symbol (Some interval) (Some range') s) =
      Inl exn
                 \<longrightarrow> fst (call_api env client ''YahooFinance/get_stock_chart'' ?q
                     w1) = Inl exn"
    by (simp add: run)
  from run sym int rng only show ?thesis
    by blast
qed

text \<open>An instance: symbol without suffix, interval and range outside the listed sets.\<close>

theorem no_local_validation_witness:
  "ApiClient (stub (Inr ''{}'')) (world (initial (0::nat))) = (Inr (), 0) \<and>
   (\<exists>q. get_stock_data (stub (Inr ''{}'')) ''2330'' (Some ''3d'') (Some ''7y'') (initial
       (0::nat)) =
               (fst (call_api (stub (Inr ''{}'')) () ''YahooFinance/get_stock_chart'' q 0),
                (initial (0::nat))
                  \<lparr>world := snd (call_api (stub (Inr ''{}'')) ()
                      ''YahooFinance/get_stock_chart'' q 0),
                   calls := calls (initial (0::nat)) @ [(''YahooFinance/get_stock_chart'',
                       q)]\<rparr>)
           \<and> map_of q ''symbol'' = Some (Str ''2330'')
           \<and> map_of q ''interval'' = Some (Str ''3d'')
           \<and> map_of q ''range'' = Some (Str ''7y'')
           \<and> (\<forall>exn. fst (get_stock_data (stub (Inr ''{}'')) ''2330'' (Some ''3d'')
               (Some ''7y'')
                            (initial (0::nat))) = Inl exn
                 \<longrightarrow> fst (call_api (stub (Inr ''{}'')) ()
                     ''YahooFinance/get_stock_chart'' q 0)
                       = Inl exn))
   \<and> get_stock_data (stub (Inr ''{}'')) ''2330'' (Some ''3d'') (Some ''7y'') (initial
       (0::nat)) =
       (Inr ''{}'',
        \<lparr>world = 1,
         calls = [(''YahooFinance/get_stock_chart'',
                   [(''symbol'', Str ''2330''), (''interval'', Str ''3d''), (''range'', Str ''7y''),
                    (''region'', Str ''TW''), (''includeAdjustedClose'', Bool True)])],
         stdout = []\<rparr>)"
proof -
  have built: "ApiClient (stub (Inr ''{}'')) (world (initial (0::nat))) = (Inr (), 0)"
    by (simp add: initial_def)
  have run: "get_stock_data (stub (Inr ''{}'')) ''2330'' (Some ''3d'') (Some ''7y'')
               (initial (0::nat)) =
       (Inr ''{}'',
        \<lparr>world = 1,
         calls = [(''YahooFinance/get_stock_chart'',
                   [(''symbol'', Str ''2330''), (''interval'', Str ''3d''), (''range'', Str ''7y''),
                    (''region'', Str ''TW''), (''includeAdjustedClose'', Bool True)])],
         stdout = []\<rparr>)"
    by (simp add: get_stock_data_def query_def initial_def)
  show ?thesis
    using built no_local_validation [OF built, of "''2330''" "''3d''" "''7y''"] run
    by (intro conjI) assumption+
qed

subsection \<open>Failures\<close>

lemma get_stock_data_stdout:
  "stdout (snd (get_stock_data env symbol interval_arg range_arg s)) = stdout s"
  by (simp add: get_stock_data_def Let_def split: prod.splits sum.splits)

lemma get_stock_data_raises:
  assumes "fst (get_stock_data env symbol interval_arg range_arg s) = Inl exn"
  shows "fst (ApiClient env (world s)) = Inl exn \<or>
         (\<exists>client w1. ApiClient env (world s) = (Inr client, w1) \<and>
            fst (call_api env client ''YahooFinance/get_stock_chart''
                   (query symbol (case interval_arg of None \<Rightarrow> ''1d'' | Some i
                       \<Rightarrow> i)
                      (case range_arg of None \<Rightarrow> ''1y'' | Some r \<Rightarrow> r))
                          w1) = Inl exn)"
  using assms
  by (auto simp: get_stock_data_def Let_def split: prod.splits sum.splits)

lemma main_get_raises:
  "get_stock_data env
     (if length argv \<ge> 2 then argv ! 1 else ''2330.TW'')
     (Some (if length argv \<ge> 3 then argv ! 2 else ''1d''))
     (Some (if length argv \<ge> 4 then argv ! 3 else ''1y'')) s = (Inl exn, s1) \<Longrightarrow>
   main env argv s = (Inl exn, s1)"
  by (simp add: main_unfold split del: if_split)

lemma main_dumps_raises:
  "get_stock_data env
     (if length argv \<ge> 2 then argv ! 1 else ''2330.TW'')
     (Some (if length argv \<ge> 3 then argv ! 2 else ''1d''))
     (Some (if length argv \<ge> 4 then argv ! 3 else ''1y'')) s = (Inr data, s1) \<Longrightarrow>
   json_dumps env data = Inl exn \<Longrightarrow>
   main env argv s = (Inl exn, s1)"
  by (simp add: main_unfold split del: if_split)

lemma main_prints:
  "get_stock_data env
     (if length argv \<ge> 2 then argv ! 1 else ''2330.TW'')
     (Some (if length argv \<ge> 3 then argv ! 2 else ''1d''))
     (Some (if length argv \<ge> 4 then argv ! 3 else ''1y'')) s = (Inr data, s1) \<Longrightarrow>
   json_dumps env data = Inr text \<Longrightarrow>
   main env argv s = (Inr (), s1\<lparr>stdout := stdout s1 @ [text]\<rparr>)"
  by (simp add: main_unfold split del: if_split)

lemma main_raises:
  assumes raised: "fst (main env argv s) = Inl exn"
  shows "snd (main env argv s) =
           snd (get_stock_data env
                (if length argv \<ge> 2 then argv ! 1 else ''2330.TW'')
                (Some (if length argv \<ge> 3 then argv ! 2 else ''1d''))
                (Some (if length argv \<ge> 4 then argv ! 3 else ''1y'')) s) \<and>
         (fst (get_stock_data env
                (if length argv \<ge> 2 then argv ! 1 else ''2330.TW'')
                (Some (if length argv \<ge> 3 then argv ! 2 else ''1d''))
                (Some (if length argv \<ge> 4 then argv ! 3 else ''1y'')) s) = Inl exn \<or>
          (\<exists>data. json_dumps env data = Inl exn))"
proof -
  obtain r s1 where g: "get_stock_data env
                (if length argv \<ge> 2 then argv ! 1 else ''2330.TW'')
                (Some (if length argv \<ge> 3 then argv ! 2 else ''1d''))
                (Some (if length argv \<ge> 4 then argv ! 3 else ''1y'')) s = (r, s1)"
    by (cases "get_stock_data env
                (if length argv \<ge> 2 then argv ! 1 else ''2330.TW'')
                (Some (if length argv \<ge> 3 then argv ! 2 else ''1d''))
                (Some (if length argv \<ge> 4 then argv ! 3 else ''1y'')) s")
  show ?thesis
  proof (cases r)
    case (Inl e)
    with g have "main env argv s = (Inl e, s1)"
      by (simp add: main_get_raises)
    with raised g Inl show ?thesis
      by simp
  next
    case (Inr data)
    show ?thesis
    proof (cases "json_dumps env data")
      case (Inl e)
      with g Inr have "main env argv s = (Inl e, s1)"
        by (simp add: main_dumps_raises)
      with raised g Inl show ?thesis
        by auto
    next
      case (Inr line)
      with g \<open>r = Inr data\<close> have "main env argv s = (Inr (), s1\<lparr>stdout :=
          stdout s1 @ [line]\<rparr>)"
        by (simp add: main_prints)
      with raised show ?thesis
        by simp
    qed
  qed
qed

lemma main_raises_stdout:
  assumes "fst (main env argv s) = Inl exn"
  shows "stdout (snd (main env argv s)) = stdout s"
  using main_raises [OF assms] by (simp add: get_stock_data_stdout)

text \<open>
  Claim C5. A failure of the foreign code is passed on as it is. If building the client
  raises, \<^const>\<open>get_stock_data\<close> raises that exception and makes no call; if the
      call
  raises, \<^const>\<open>get_stock_data\<close> raises that exception after the one call (no second
  attempt). Whenever \<^const>\<open>get_stock_data\<close> raises, the script ends with the same
  exception and in the same state. Whenever the script ends with an exception, nothing
  has been printed, and the exception is one that the client constructor, the call or
  \<^verbatim>\<open>json.dumps\<close> raised: the script has none of its own.
\<close>

theorem capability_failure_propagates:
  "(fst (ApiClient env (world s)) = Inl exn \<longrightarrow>
      get_stock_data env symbol interval_arg range_arg s =
        (Inl exn, s\<lparr>world := snd (ApiClient env (world s))\<rparr>))
   \<and> (\<forall>client w1 w2.
        ApiClient env (world s) = (Inr client, w1) \<and>
        call_api env client ''YahooFinance/get_stock_chart''
          (query symbol (case interval_arg of None \<Rightarrow> ''1d'' | Some i \<Rightarrow> i)
             (case range_arg of None \<Rightarrow> ''1y'' | Some r \<Rightarrow> r)) w1 = (Inl
                 exn, w2) \<longrightarrow>
        get_stock_data env symbol interval_arg range_arg s =
          (Inl exn,
           s\<lparr>world := w2,
             calls := calls s @
               [(''YahooFinance/get_stock_chart'',
                 query symbol (case interval_arg of None \<Rightarrow> ''1d'' | Some i
                     \<Rightarrow> i)
                   (case range_arg of None \<Rightarrow> ''1y'' | Some r \<Rightarrow>
                       r))]\<rparr>))
   \<and> (fst (get_stock_data env
              (if length argv \<ge> 2 then argv ! 1 else ''2330.TW'')
              (Some (if length argv \<ge> 3 then argv ! 2 else ''1d''))
              (Some (if length argv \<ge> 4 then argv ! 3 else ''1y'')) s) = Inl exn
                  \<longrightarrow>
        main env argv s =
          (Inl exn,
           snd (get_stock_data env
              (if length argv \<ge> 2 then argv ! 1 else ''2330.TW'')
              (Some (if length argv \<ge> 3 then argv ! 2 else ''1d''))
              (Some (if length argv \<ge> 4 then argv ! 3 else ''1y'')) s)))
   \<and> (fst (main env argv s) = Inl exn \<longrightarrow>
        stdout (snd (main env argv s)) = stdout s \<and>
        (fst (ApiClient env (world s)) = Inl exn \<or>
         (\<exists>client w1. ApiClient env (world s) = (Inr client, w1) \<and>
            fst (call_api env client ''YahooFinance/get_stock_chart''
                   (query (if length argv \<ge> 2 then argv ! 1 else ''2330.TW'')
                      (if length argv \<ge> 3 then argv ! 2 else ''1d'')
                      (if length argv \<ge> 4 then argv ! 3 else ''1y'')) w1) = Inl exn) \<or>
         (\<exists>data. json_dumps env data = Inl exn)))"
proof (intro conjI impI allI)
  assume "fst (ApiClient env (world s)) = Inl exn"
  then have "ApiClient env (world s) = (Inl exn, snd (ApiClient env (world s)))"
    by (simp add: prod_eq_iff)
  then show "get_stock_data env symbol interval_arg range_arg s =
        (Inl exn, s\<lparr>world := snd (ApiClient env (world s))\<rparr>)"
    by (rule get_stock_data_client_raises)
next
  fix client w1 w2
  assume h: "ApiClient env (world s) = (Inr client, w1) \<and>
        call_api env client ''YahooFinance/get_stock_chart''
          (query symbol (case interval_arg of None \<Rightarrow> ''1d'' | Some i \<Rightarrow> i)
             (case range_arg of None \<Rightarrow> ''1y'' | Some r \<Rightarrow> r)) w1 = (Inl
                 exn, w2)"
  then have built: "ApiClient env (world s) = (Inr client, w1)"
    by simp
  show "get_stock_data env symbol interval_arg range_arg s =
          (Inl exn,
           s\<lparr>world := w2,
             calls := calls s @
               [(''YahooFinance/get_stock_chart'',
                 query symbol (case interval_arg of None \<Rightarrow> ''1d'' | Some i
                     \<Rightarrow> i)
                   (case range_arg of None \<Rightarrow> ''1y'' | Some r \<Rightarrow>
                       r))]\<rparr>)"
    using h by (simp add: get_stock_data_called [OF built])
next
  assume "fst (get_stock_data env
              (if length argv \<ge> 2 then argv ! 1 else ''2330.TW'')
              (Some (if length argv \<ge> 3 then argv ! 2 else ''1d''))
              (Some (if length argv \<ge> 4 then argv ! 3 else ''1y'')) s) = Inl exn"
  then show "main env argv s =
          (Inl exn,
           snd (get_stock_data env
              (if length argv \<ge> 2 then argv ! 1 else ''2330.TW'')
              (Some (if length argv \<ge> 3 then argv ! 2 else ''1d''))
              (Some (if length argv \<ge> 4 then argv ! 3 else ''1y'')) s))"
    by (intro main_get_raises) (simp add: prod_eq_iff)
next
  assume "fst (main env argv s) = Inl exn"
  then show "stdout (snd (main env argv s)) = stdout s"
    by (rule main_raises_stdout)
next
  assume "fst (main env argv s) = Inl exn"
  from main_raises [OF this]
  have "fst (get_stock_data env
                (if length argv \<ge> 2 then argv ! 1 else ''2330.TW'')
                (Some (if length argv \<ge> 3 then argv ! 2 else ''1d''))
                (Some (if length argv \<ge> 4 then argv ! 3 else ''1y'')) s) = Inl exn \<or>
          (\<exists>data. json_dumps env data = Inl exn)"
    by (rule conjunct2)
  then show "fst (ApiClient env (world s)) = Inl exn \<or>
         (\<exists>client w1. ApiClient env (world s) = (Inr client, w1) \<and>
            fst (call_api env client ''YahooFinance/get_stock_chart''
                   (query (if length argv \<ge> 2 then argv ! 1 else ''2330.TW'')
                      (if length argv \<ge> 3 then argv ! 2 else ''1d'')
                      (if length argv \<ge> 4 then argv ! 3 else ''1y'')) w1) = Inl exn) \<or>
         (\<exists>data. json_dumps env data = Inl exn)"
  proof
    assume "fst (get_stock_data env
                (if length argv \<ge> 2 then argv ! 1 else ''2330.TW'')
                (Some (if length argv \<ge> 3 then argv ! 2 else ''1d''))
                (Some (if length argv \<ge> 4 then argv ! 3 else ''1y'')) s) = Inl exn"
    from get_stock_data_raises [OF this] show ?thesis
      by (simp only: option.case) blast
  next
    assume "\<exists>data. json_dumps env data = Inl exn"
    then show ?thesis
      by (intro disjI2)
  qed
qed

text \<open>
  Two instances: a provider whose client cannot be built, and one whose call times
  out, run from the command line with no argument.
\<close>

theorem capability_failure_propagates_witness:
  "fst (ApiClient (stub (Inl ''timeout'')\<lparr>ApiClient := \<lambda>w. (Inl
      ''no credentials'', w)\<rparr>)
          (world (initial (0::nat)))) = Inl ''no credentials''
   \<and> get_stock_data (stub (Inl ''timeout'')\<lparr>ApiClient := \<lambda>w. (Inl
       ''no credentials'', w)\<rparr>)
         ''2330.TW'' None None (initial (0::nat)) = (Inl ''no credentials'', initial 0)
   \<and> ApiClient (stub (Inl ''timeout'')) (world (initial (0::nat))) = (Inr (), 0)
   \<and> call_api (stub (Inl ''timeout'')) () ''YahooFinance/get_stock_chart''
         (query ''2330.TW'' ''1d'' ''1y'') (0::nat) = (Inl ''timeout'', 1)
   \<and> get_stock_data (stub (Inl ''timeout'')) ''2330.TW'' None None (initial (0::nat)) =
         (Inl ''timeout'',
          \<lparr>world = 1,
           calls = [(''YahooFinance/get_stock_chart'', query ''2330.TW'' ''1d'' ''1y'')],
           stdout = []\<rparr>)
   \<and> main (stub (Inl ''timeout'')) [''yahoo_finance.py''] (initial (0::nat)) =
         (Inl ''timeout'',
          \<lparr>world = 1,
           calls = [(''YahooFinance/get_stock_chart'', query ''2330.TW'' ''1d'' ''1y'')],
           stdout = []\<rparr>)
   \<and> stdout (snd (main (stub (Inl ''timeout'')) [''yahoo_finance.py''] (initial (0::nat))))
       = []"
proof -
  have unbuilt:
    "fst (ApiClient (stub (Inl ''timeout'')\<lparr>ApiClient := \<lambda>w. (Inl
        ''no credentials'', w)\<rparr>)
            (world (initial (0::nat)))) = Inl ''no credentials''"
    by simp
  have built: "ApiClient (stub (Inl ''timeout'')) (world (initial (0::nat))) = (Inr (), 0)"
    by (simp add: initial_def)
  have timeout: "call_api (stub (Inl ''timeout'')) () ''YahooFinance/get_stock_chart''
         (query ''2330.TW'' ''1d'' ''1y'') (0::nat) = (Inl ''timeout'', 1)"
    by simp
  have first: "get_stock_data (stub (Inl ''timeout'')\<lparr>ApiClient := \<lambda>w. (Inl
      ''no credentials'', w)\<rparr>)
         ''2330.TW'' None None (initial (0::nat)) = (Inl ''no credentials'', initial 0)"
    using unbuilt
      capability_failure_propagates
        [where env = "stub (Inl ''timeout'')\<lparr>ApiClient := \<lambda>w. (Inl
            ''no credentials'', w)\<rparr>"
           and s = "initial (0::nat)" and exn = "''no credentials''" and symbol = "''2330.TW''"
           and interval_arg = None and range_arg = None and argv = "[''yahoo_finance.py'']"]
    by (simp add: initial_def)
  note second = capability_failure_propagates
        [where env = "stub (Inl ''timeout'')" and s = "initial (0::nat)" and exn = "''timeout''"
           and symbol = "''2330.TW''" and interval_arg = None and range_arg = None
           and argv = "[''yahoo_finance.py'']"]
  have func: "get_stock_data (stub (Inl ''timeout'')) ''2330.TW'' None None (initial (0::nat)) =
         (Inl ''timeout'',
          \<lparr>world = 1,
           calls = [(''YahooFinance/get_stock_chart'', query ''2330.TW'' ''1d'' ''1y'')],
           stdout = []\<rparr>)"
    using built timeout second by (simp add: initial_def)
  have func': "get_stock_data (stub (Inl ''timeout'')) ''2330.TW'' (Some ''1d'') (Some ''1y'')
                 (initial (0::nat)) =
         (Inl ''timeout'',
          \<lparr>world = 1,
           calls = [(''YahooFinance/get_stock_chart'', query ''2330.TW'' ''1d'' ''1y'')],
           stdout = []\<rparr>)"
    using func by (simp add: get_stock_data_def)
  have script: "main (stub (Inl ''timeout'')) [''yahoo_finance.py''] (initial (0::nat)) =
         (Inl ''timeout'',
          \<lparr>world = 1,
           calls = [(''YahooFinance/get_stock_chart'', query ''2330.TW'' ''1d'' ''1y'')],
           stdout = []\<rparr>)"
    using func' second by simp
  have silent:
    "stdout (snd (main (stub (Inl ''timeout'')) [''yahoo_finance.py''] (initial (0::nat)))) = []"
    using script second by (simp add: initial_def)
  from unbuilt first built timeout func script silent show ?thesis
    by (intro conjI)
qed

subsection \<open>The output\<close>




subsection \<open>Determinism\<close>

lemma get_stock_data_depends:
  assumes "ApiClient env2 = ApiClient env1" and "call_api env2 = call_api env1"
      and "world s2 = world s1"
  shows "fst (get_stock_data env2 symbol interval_arg range_arg s2) =
         fst (get_stock_data env1 symbol interval_arg range_arg s1)
       \<and> world (snd (get_stock_data env2 symbol interval_arg range_arg s2)) =
         world (snd (get_stock_data env1 symbol interval_arg range_arg s1))
       \<and> drop (length (calls s2)) (calls (snd (get_stock_data env2 symbol interval_arg
           range_arg s2))) =
         drop (length (calls s1)) (calls (snd (get_stock_data env1 symbol interval_arg range_arg
             s1)))"
  using assms
  by (simp add: get_stock_data_def Let_def split: prod.splits sum.splits)

text \<open>
  Claim C10. Two runs of \<^const>\<open>get_stock_data\<close> on the same symbol, interval and
  range, in whatever surroundings (different foreign code, different worlds, different
  earlier calls and output): if both reach the call, they make it with one and the
  same query, which has the five keys \<^verbatim>\<open>symbol\<close>,
      \<^verbatim>\<open>interval\<close>, \<^verbatim>\<open>range\<close>,
  \<^verbatim>\<open>region\<close>, \<^verbatim>\<open>includeAdjustedClose\<close> and values
      fixed by the three inputs alone.
  And if the client constructor and \<^verbatim>\<open>call_api\<close> behave the same in both
      runs and
  the world is the same at the start, the two runs return the same result, leave the
  same world and make the same calls; \<^verbatim>\<open>json.dumps\<close>, the calls made
      before and
  the output so far have no influence.
\<close>

theorem get_stock_data_deterministic:
  "(\<forall>client1 w1 client2 w2.
      ApiClient env1 (world s1) = (Inr client1, w1) \<and>
      ApiClient env2 (world s2) = (Inr client2, w2) \<longrightarrow>
      (\<exists>q. calls (snd (get_stock_data env1 symbol interval_arg range_arg s1)) =
              calls s1 @ [(''YahooFinance/get_stock_chart'', q)]
         \<and> calls (snd (get_stock_data env2 symbol interval_arg range_arg s2)) =
              calls s2 @ [(''YahooFinance/get_stock_chart'', q)]
         \<and> map fst q = [''symbol'', ''interval'', ''range'', ''region'',
             ''includeAdjustedClose'']
         \<and> map snd q =
              [Str symbol,
               Str (case interval_arg of None \<Rightarrow> ''1d'' | Some i \<Rightarrow> i),
               Str (case range_arg of None \<Rightarrow> ''1y'' | Some r \<Rightarrow> r),
               Str ''TW'', Bool True]))
   \<and> (ApiClient env2 = ApiClient env1 \<and> call_api env2 = call_api env1 \<and>
      world s2 = world s1 \<longrightarrow>
        fst (get_stock_data env2 symbol interval_arg range_arg s2) =
          fst (get_stock_data env1 symbol interval_arg range_arg s1)
      \<and> world (snd (get_stock_data env2 symbol interval_arg range_arg s2)) =
          world (snd (get_stock_data env1 symbol interval_arg range_arg s1))
      \<and> drop (length (calls s2))
            (calls (snd (get_stock_data env2 symbol interval_arg range_arg s2))) =
          drop (length (calls s1))
            (calls (snd (get_stock_data env1 symbol interval_arg range_arg s1))))"
proof (intro conjI allI impI)
  fix client1 w1 client2 w2
  assume both: "ApiClient env1 (world s1) = (Inr client1, w1) \<and>
                ApiClient env2 (world s2) = (Inr client2, w2)"
  let ?q = "query symbol (case interval_arg of None \<Rightarrow> ''1d'' | Some i \<Rightarrow> i)
              (case range_arg of None \<Rightarrow> ''1y'' | Some r \<Rightarrow> r)"
  from both have b1: "ApiClient env1 (world s1) = (Inr client1, w1)"
    by (rule conjunct1)
  from both have b2: "ApiClient env2 (world s2) = (Inr client2, w2)"
    by (rule conjunct2)
  have c1: "calls (snd (get_stock_data env1 symbol interval_arg range_arg s1)) =
              calls s1 @ [(''YahooFinance/get_stock_chart'', ?q)]"
    by (simp add: get_stock_data_called [OF b1])
  have c2: "calls (snd (get_stock_data env2 symbol interval_arg range_arg s2)) =
              calls s2 @ [(''YahooFinance/get_stock_chart'', ?q)]"
    by (simp add: get_stock_data_called [OF b2])
  have keys: "map fst ?q = [''symbol'', ''interval'', ''range'', ''region'',
      ''includeAdjustedClose'']"
    by (simp add: query_def)
  have vals: "map snd ?q =
              [Str symbol,
               Str (case interval_arg of None \<Rightarrow> ''1d'' | Some i \<Rightarrow> i),
               Str (case range_arg of None \<Rightarrow> ''1y'' | Some r \<Rightarrow> r),
               Str ''TW'', Bool True]"
    by (simp add: query_def)
  show "\<exists>q. calls (snd (get_stock_data env1 symbol interval_arg range_arg s1)) =
              calls s1 @ [(''YahooFinance/get_stock_chart'', q)]
         \<and> calls (snd (get_stock_data env2 symbol interval_arg range_arg s2)) =
              calls s2 @ [(''YahooFinance/get_stock_chart'', q)]
         \<and> map fst q = [''symbol'', ''interval'', ''range'', ''region'',
             ''includeAdjustedClose'']
         \<and> map snd q =
              [Str symbol,
               Str (case interval_arg of None \<Rightarrow> ''1d'' | Some i \<Rightarrow> i),
               Str (case range_arg of None \<Rightarrow> ''1y'' | Some r \<Rightarrow> r),
               Str ''TW'', Bool True]"
    by (rule exI [of _ ?q]) (intro conjI c1 c2 keys vals)
next
  assume same: "ApiClient env2 = ApiClient env1 \<and> call_api env2 = call_api env1 \<and>
      world s2 = world s1"
  then have dep: "fst (get_stock_data env2 symbol interval_arg range_arg s2) =
         fst (get_stock_data env1 symbol interval_arg range_arg s1)
       \<and> world (snd (get_stock_data env2 symbol interval_arg range_arg s2)) =
         world (snd (get_stock_data env1 symbol interval_arg range_arg s1))
       \<and> drop (length (calls s2)) (calls (snd (get_stock_data env2 symbol interval_arg
           range_arg s2))) =
         drop (length (calls s1)) (calls (snd (get_stock_data env1 symbol interval_arg range_arg
             s1)))"
    by (intro get_stock_data_depends) simp_all
  from dep show "fst (get_stock_data env2 symbol interval_arg range_arg s2) =
          fst (get_stock_data env1 symbol interval_arg range_arg s1)"
    by (rule conjunct1)
  from dep show "world (snd (get_stock_data env2 symbol interval_arg range_arg s2)) =
          world (snd (get_stock_data env1 symbol interval_arg range_arg s1))"
    by (rule conjunct1 [OF conjunct2])
  from dep show "drop (length (calls s2))
            (calls (snd (get_stock_data env2 symbol interval_arg range_arg s2))) =
          drop (length (calls s1))
            (calls (snd (get_stock_data env1 symbol interval_arg range_arg s1)))"
    by (rule conjunct2 [OF conjunct2])
qed



text \<open>
  An instance: the second run has another \<^verbatim>\<open>json.dumps\<close> and earlier
      output, the
  interval is omitted.
\<close>

theorem get_stock_data_deterministic_witness:
  "ApiClient (stub (Inr ''{}'')) (world (initial (0::nat))) = (Inr (), 0)
   \<and> ApiClient (stub (Inr ''{}'')\<lparr>json_dumps := \<lambda>data. Inl
       ''unserialisable''\<rparr>) (world (initial (0::nat)\<lparr>stdout :=
       [''earlier output'']\<rparr>)) = (Inr (), 0)
   \<and> (\<exists>q. calls (snd (get_stock_data (stub (Inr ''{}'')) ''2330.TW'' None (Some
       ''5y'') (initial (0::nat)))) =
            calls (initial (0::nat)) @ [(''YahooFinance/get_stock_chart'', q)]
       \<and> calls (snd (get_stock_data (stub (Inr ''{}'')\<lparr>json_dumps := \<lambda>data.
           Inl ''unserialisable''\<rparr>) ''2330.TW'' None (Some ''5y'') (initial
           (0::nat)\<lparr>stdout := [''earlier output'']\<rparr>))) =
            calls (initial (0::nat)\<lparr>stdout := [''earlier output'']\<rparr>) @
                [(''YahooFinance/get_stock_chart'', q)]
       \<and> map fst q = [''symbol'', ''interval'', ''range'', ''region'',
           ''includeAdjustedClose'']
       \<and> map snd q =
            [Str ''2330.TW'',
             Str (case None of None \<Rightarrow> ''1d'' | Some i \<Rightarrow> i),
             Str (case Some ''5y'' of None \<Rightarrow> ''1y'' | Some r \<Rightarrow> r),
             Str ''TW'', Bool True])
   \<and> ApiClient (stub (Inr ''{}'')\<lparr>json_dumps := \<lambda>data. Inl
       ''unserialisable''\<rparr>) = ApiClient (stub (Inr ''{}''))
   \<and> call_api (stub (Inr ''{}'')\<lparr>json_dumps := \<lambda>data. Inl
       ''unserialisable''\<rparr>) = call_api (stub (Inr ''{}''))
   \<and> world (initial (0::nat)\<lparr>stdout := [''earlier output'']\<rparr>) = world
       (initial (0::nat))
   \<and> (fst (get_stock_data (stub (Inr ''{}'')\<lparr>json_dumps := \<lambda>data. Inl
       ''unserialisable''\<rparr>) ''2330.TW'' None (Some ''5y'') (initial
       (0::nat)\<lparr>stdout := [''earlier output'']\<rparr>)) = fst (get_stock_data (stub (Inr
       ''{}'')) ''2330.TW'' None (Some ''5y'') (initial (0::nat)))
     \<and> world (snd (get_stock_data (stub (Inr ''{}'')\<lparr>json_dumps := \<lambda>data.
         Inl ''unserialisable''\<rparr>) ''2330.TW'' None (Some ''5y'') (initial
         (0::nat)\<lparr>stdout := [''earlier output'']\<rparr>))) = world (snd (get_stock_data
         (stub (Inr ''{}'')) ''2330.TW'' None (Some ''5y'') (initial (0::nat))))
     \<and> drop (length (calls (initial (0::nat)\<lparr>stdout :=
         [''earlier output'']\<rparr>))) (calls (snd (get_stock_data (stub (Inr
         ''{}'')\<lparr>json_dumps := \<lambda>data. Inl ''unserialisable''\<rparr>) ''2330.TW''
         None (Some ''5y'') (initial (0::nat)\<lparr>stdout := [''earlier output'']\<rparr>))))
         =
         drop (length (calls (initial (0::nat)))) (calls (snd (get_stock_data (stub (Inr
             ''{}'')) ''2330.TW'' None (Some ''5y'') (initial (0::nat))))))"
proof -
  note inst = get_stock_data_deterministic
    [where ?env1.0 = "(stub (Inr ''{}''))" and ?env2.0 = "(stub (Inr ''{}'')\<lparr>json_dumps
        := \<lambda>data. Inl ''unserialisable''\<rparr>)"
       and ?s1.0 = "(initial (0::nat))" and ?s2.0 = "(initial (0::nat)\<lparr>stdout :=
           [''earlier output'']\<rparr>)"
       and symbol = "''2330.TW''" and interval_arg = None and range_arg = "Some ''5y''"]
  have b1: "ApiClient (stub (Inr ''{}'')) (world (initial (0::nat))) = (Inr (), 0)"
    by (simp add: initial_def)
  have b2: "ApiClient (stub (Inr ''{}'')\<lparr>json_dumps := \<lambda>data. Inl
      ''unserialisable''\<rparr>) (world (initial (0::nat)\<lparr>stdout :=
      [''earlier output'']\<rparr>)) = (Inr (), 0)"
    by (simp add: initial_def)
  have e1: "ApiClient (stub (Inr ''{}'')\<lparr>json_dumps := \<lambda>data. Inl
      ''unserialisable''\<rparr>) = ApiClient (stub (Inr ''{}''))"
    by simp
  have e2: "call_api (stub (Inr ''{}'')\<lparr>json_dumps := \<lambda>data. Inl
      ''unserialisable''\<rparr>) = call_api (stub (Inr ''{}''))"
    by simp
  have e3: "world (initial (0::nat)\<lparr>stdout := [''earlier output'']\<rparr>) = world
      (initial (0::nat))"
    by simp
  have sent: "(\<exists>q. calls (snd (get_stock_data (stub (Inr ''{}'')) ''2330.TW'' None (Some
      ''5y'') (initial (0::nat)))) =
            calls (initial (0::nat)) @ [(''YahooFinance/get_stock_chart'', q)]
       \<and> calls (snd (get_stock_data (stub (Inr ''{}'')\<lparr>json_dumps := \<lambda>data.
           Inl ''unserialisable''\<rparr>) ''2330.TW'' None (Some ''5y'') (initial
           (0::nat)\<lparr>stdout := [''earlier output'']\<rparr>))) =
            calls (initial (0::nat)\<lparr>stdout := [''earlier output'']\<rparr>) @
                [(''YahooFinance/get_stock_chart'', q)]
       \<and> map fst q = [''symbol'', ''interval'', ''range'', ''region'',
           ''includeAdjustedClose'']
       \<and> map snd q =
            [Str ''2330.TW'',
             Str (case None of None \<Rightarrow> ''1d'' | Some i \<Rightarrow> i),
             Str (case Some ''5y'' of None \<Rightarrow> ''1y'' | Some r \<Rightarrow> r),
             Str ''TW'', Bool True])"
    by (rule conjunct1 [OF inst, rule_format, OF conjI [OF b1 b2]])
  have same: "(fst (get_stock_data (stub (Inr ''{}'')\<lparr>json_dumps := \<lambda>data. Inl
      ''unserialisable''\<rparr>) ''2330.TW'' None (Some ''5y'') (initial (0::nat)\<lparr>stdout
      := [''earlier output'']\<rparr>)) = fst (get_stock_data (stub (Inr ''{}'')) ''2330.TW''
      None (Some ''5y'') (initial (0::nat)))
     \<and> world (snd (get_stock_data (stub (Inr ''{}'')\<lparr>json_dumps := \<lambda>data.
         Inl ''unserialisable''\<rparr>) ''2330.TW'' None (Some ''5y'') (initial
         (0::nat)\<lparr>stdout := [''earlier output'']\<rparr>))) = world (snd (get_stock_data
         (stub (Inr ''{}'')) ''2330.TW'' None (Some ''5y'') (initial (0::nat))))
     \<and> drop (length (calls (initial (0::nat)\<lparr>stdout :=
         [''earlier output'']\<rparr>))) (calls (snd (get_stock_data (stub (Inr
         ''{}'')\<lparr>json_dumps := \<lambda>data. Inl ''unserialisable''\<rparr>) ''2330.TW''
         None (Some ''5y'') (initial (0::nat)\<lparr>stdout := [''earlier output'']\<rparr>))))
         =
         drop (length (calls (initial (0::nat)))) (calls (snd (get_stock_data (stub (Inr
             ''{}'')) ''2330.TW'' None (Some ''5y'') (initial (0::nat))))))"
    by (rule conjunct2 [OF inst, rule_format, OF conjI [OF e1 conjI [OF e2 e3]]])
  show ?thesis
    by (rule conjI [OF b1 conjI [OF b2 conjI [OF sent
          conjI [OF e1 conjI [OF e2 conjI [OF e3 same]]]]]])
qed

subsection \<open>Calls made in a run\<close>

text \<open>
  How many calls have been made at each control point of a run started by the
  operating system: none up to the call, one after it.
\<close>

lemma reachable_calls:
  assumes "(step env)\<^sup>*\<^sup>* (Start argv, initial w) cfg"
  shows "case fst cfg of
           Start a \<Rightarrow> calls (snd cfg) = []
         | NewClient sy i r \<Rightarrow> calls (snd cfg) = []
         | CallApi c sy i r \<Rightarrow> calls (snd cfg) = []
         | Dumps d \<Rightarrow> length (calls (snd cfg)) = 1
         | Print t \<Rightarrow> length (calls (snd cfg)) = 1
         | Exit \<Rightarrow> length (calls (snd cfg)) = 1
         | Raise x \<Rightarrow> length (calls (snd cfg)) \<le> 1"
  using assms
proof (induction rule: rtranclp_induct)
  case base
  show ?case by (simp add: initial_def)
next
  case (step y z)
  from step.hyps(2) step.IH show ?case
    by (cases rule: step.cases) (simp_all split del: if_split)
qed

text \<open>Once at the call, every later configuration has made exactly that call.\<close>

lemma after_call:
  assumes "(step env)\<^sup>+\<^sup>+ (CallApi client symbol interval range', s1) cfg"
  shows "calls (snd cfg) =
           calls s1 @ [(''YahooFinance/get_stock_chart'', query symbol interval range')]
         \<and> (case fst cfg of Start a \<Rightarrow> False | NewClient sy i r \<Rightarrow> False
              | CallApi c sy i r \<Rightarrow> False | _ \<Rightarrow> True)"
  using assms
proof (induction rule: tranclp_induct)
  case (base y)
  then show ?case
    by (cases rule: step.cases) simp_all
next
  case (step y z)
  from step.hyps(2) step.IH show ?case
    by (cases rule: step.cases) simp_all
qed

text \<open>
  The transition system and \<^const>\<open>main\<close> agree: the run from the start ends in the
  configuration \<^const>\<open>main\<close> computes.
\<close>

lemma main_runs:
  "(step env)\<^sup>*\<^sup>* (Start argv, s) (final (main env argv s))"
proof -
  let ?symbol = "if length argv \<ge> 2 then argv ! 1 else ''2330.TW''"
  let ?interval = "if length argv \<ge> 3 then argv ! 2 else ''1d''"
  let ?range = "if length argv \<ge> 4 then argv ! 3 else ''1y''"
  have s0: "step env (Start argv, s) (NewClient ?symbol ?interval ?range, s)"
    by (rule step.args)
  obtain built w1 where a: "ApiClient env (world s) = (built, w1)"
    by (cases "ApiClient env (world s)")
  show ?thesis
  proof (cases built)
    case (Inl exn)
    with a have s1: "step env (NewClient ?symbol ?interval ?range, s) (Raise exn, s\<lparr>world
        := w1\<rparr>)"
      by (intro step.client_raises) simp
    from a Inl have "get_stock_data env ?symbol (Some ?interval) (Some ?range) s =
                       (Inl exn, s\<lparr>world := w1\<rparr>)"
      by (intro get_stock_data_client_raises) simp
    then have "main env argv s = (Inl exn, s\<lparr>world := w1\<rparr>)"
      by (rule main_get_raises)
    then have fin: "final (main env argv s) = (Raise exn, s\<lparr>world := w1\<rparr>)"
      by simp
    have "(step env)\<^sup>*\<^sup>* (Start argv, s) (NewClient ?symbol ?interval ?range, s)"
      using s0 by (rule r_into_rtranclp)
    then have "(step env)\<^sup>*\<^sup>* (Start argv, s) (Raise exn, s\<lparr>world := w1\<rparr>)"
      using s1 by (rule rtranclp.rtrancl_into_rtrancl)
    then show ?thesis
      by (simp only: fin)
  next
    case (Inr client)
    let ?q = "query ?symbol ?interval ?range"
    let ?s2 = "s\<lparr>world := w1\<rparr>"
    from a Inr have built': "ApiClient env (world s) = (Inr client, w1)"
      by simp
    then have s1: "step env (NewClient ?symbol ?interval ?range, s)
                     (CallApi client ?symbol ?interval ?range, ?s2)"
      by (rule step.client_built)
    have "(step env)\<^sup>*\<^sup>* (Start argv, s) (NewClient ?symbol ?interval ?range, s)"
      using s0 by (rule r_into_rtranclp)
    then have to_call: "(step env)\<^sup>*\<^sup>* (Start argv, s)
                          (CallApi client ?symbol ?interval ?range, ?s2)"
      using s1 by (rule rtranclp.rtrancl_into_rtrancl)
    obtain answer w2 where c:
      "call_api env client ''YahooFinance/get_stock_chart'' ?q w1 = (answer, w2)"
      by (cases "call_api env client ''YahooFinance/get_stock_chart'' ?q w1")
    let ?s3 = "s\<lparr>world := w2, calls := calls s @ [(''YahooFinance/get_stock_chart'',
        ?q)]\<rparr>"
    have s3_eq: "?s2\<lparr>world := w2,
                    calls := calls ?s2 @ [(''YahooFinance/get_stock_chart'', ?q)]\<rparr> = ?s3"
      by simp
    have g: "get_stock_data env ?symbol (Some ?interval) (Some ?range) s = (answer, ?s3)"
      using get_stock_data_called [OF built', of ?symbol "Some ?interval" "Some ?range"] c
      by (simp split del: if_split)
    show ?thesis
    proof (cases answer)
      case (Inl exn)
      from c Inl have "call_api env client ''YahooFinance/get_stock_chart'' ?q (world ?s2) =
                         (Inl exn, w2)"
        by simp
      from step.call_raises [OF this]
      have s2: "step env (CallApi client ?symbol ?interval ?range, ?s2) (Raise exn, ?s3)"
        by (simp only: s3_eq)
      from g Inl have "main env argv s = (Inl exn, ?s3)"
        by (intro main_get_raises) simp
      then have fin: "final (main env argv s) = (Raise exn, ?s3)"
        by simp
      from to_call have "(step env)\<^sup>*\<^sup>* (Start argv, s) (Raise exn, ?s3)"
        using s2 by (rule rtranclp.rtrancl_into_rtrancl)
      then show ?thesis
        by (simp only: fin)
    next
      case (Inr data)
      from c Inr have "call_api env client ''YahooFinance/get_stock_chart'' ?q (world ?s2) =
                         (Inr data, w2)"
        by simp
      from step.call_returns [OF this]
      have s2: "step env (CallApi client ?symbol ?interval ?range, ?s2) (Dumps data, ?s3)"
        by (simp only: s3_eq)
      from g Inr have g': "get_stock_data env ?symbol (Some ?interval) (Some ?range) s =
                             (Inr data, ?s3)"
        by simp
      show ?thesis
      proof (cases "json_dumps env data")
        case (Inl exn)
        then have s3: "step env (Dumps data, ?s3) (Raise exn, ?s3)"
          by (rule step.dumps_raises)
        from g' Inl have "main env argv s = (Inl exn, ?s3)"
          by (rule main_dumps_raises)
        then have fin: "final (main env argv s) = (Raise exn, ?s3)"
          by simp
        from to_call have "(step env)\<^sup>*\<^sup>* (Start argv, s) (Dumps data, ?s3)"
          using s2 by (rule rtranclp.rtrancl_into_rtrancl)
        then have "(step env)\<^sup>*\<^sup>* (Start argv, s) (Raise exn, ?s3)"
          using s3 by (rule rtranclp.rtrancl_into_rtrancl)
        then show ?thesis
          by (simp only: fin)
      next
        case (Inr line)
        then have s3: "step env (Dumps data, ?s3) (Print line, ?s3)"
          by (rule step.dumps_returns)
        have s4: "step env (Print line, ?s3) (Exit, ?s3\<lparr>stdout := stdout ?s3 @
            [line]\<rparr>)"
          by (rule step.print)
        from g' Inr have "main env argv s = (Inr (), ?s3\<lparr>stdout := stdout ?s3 @
            [line]\<rparr>)"
          by (rule main_prints)
        then have fin: "final (main env argv s) = (Exit, ?s3\<lparr>stdout := stdout ?s3 @
            [line]\<rparr>)"
          by simp
        from to_call have "(step env)\<^sup>*\<^sup>* (Start argv, s) (Dumps data, ?s3)"
          using s2 by (rule rtranclp.rtrancl_into_rtrancl)
        then have "(step env)\<^sup>*\<^sup>* (Start argv, s) (Print line, ?s3)"
          using s3 by (rule rtranclp.rtrancl_into_rtrancl)
        then have "(step env)\<^sup>*\<^sup>* (Start argv, s)
                     (Exit, ?s3\<lparr>stdout := stdout ?s3 @ [line]\<rparr>)"
          using s4 by (rule rtranclp.rtrancl_into_rtrancl)
        then show ?thesis
          by (simp only: fin)
      qed
    qed
  qed
qed

text \<open>
  Claim C6. A run of the script never makes more than one call to
      \<^verbatim>\<open>call_api\<close>:
  in every configuration reachable from the start at most one call has been made.
  A run that has reached the call has, in every later configuration, made exactly one
  call, the one with the query of its three strings: no second call, no retry. The
  run that \<^const>\<open>main\<close> computes is a run of the transition system, and it ends with
  no call made when the client could not be built and with exactly one otherwise.
\<close>

theorem at_most_one_outbound_call:
  "((step env)\<^sup>*\<^sup>* (Start argv, initial w) (c, s) \<longrightarrow> length (calls s)
      \<le> 1)
   \<and> (\<forall>client symbol interval range' s1.
        (step env)\<^sup>*\<^sup>* (Start argv, initial w) (CallApi client symbol interval
            range', s1) \<and>
        (step env)\<^sup>+\<^sup>+ (CallApi client symbol interval range', s1) (c, s)
            \<longrightarrow>
        calls s = [(''YahooFinance/get_stock_chart'', query symbol interval range')])
   \<and> (step env)\<^sup>*\<^sup>* (Start argv, initial w) (final (main env argv (initial w)))
   \<and> length (calls (snd (main env argv (initial w)))) =
       (case fst (ApiClient env w) of Inl exn \<Rightarrow> 0 | Inr client \<Rightarrow> 1)"
proof (intro conjI impI allI)
  assume "(step env)\<^sup>*\<^sup>* (Start argv, initial w) (c, s)"
  from reachable_calls [OF this] show "length (calls s) \<le> 1"
    by (cases c) simp_all
next
  fix client symbol interval range' s1
  assume run: "(step env)\<^sup>*\<^sup>* (Start argv, initial w) (CallApi client symbol
      interval range', s1) \<and>
        (step env)\<^sup>+\<^sup>+ (CallApi client symbol interval range', s1) (c, s)"
  then have "(step env)\<^sup>*\<^sup>* (Start argv, initial w) (CallApi client symbol interval
      range', s1)"
    by (rule conjunct1)
  from reachable_calls [OF this] have none: "calls s1 = []"
    by simp
  from run have "(step env)\<^sup>+\<^sup>+ (CallApi client symbol interval range', s1) (c, s)"
    by (rule conjunct2)
  from after_call [OF this] none
  show "calls s = [(''YahooFinance/get_stock_chart'', query symbol interval range')]"
    by simp
next
  show "(step env)\<^sup>*\<^sup>* (Start argv, initial w) (final (main env argv (initial w)))"
    by (rule main_runs)
next
  obtain built w1 where a: "ApiClient env (world (initial w)) = (built, w1)"
    by (cases "ApiClient env (world (initial w))")
  then have a': "ApiClient env w = (built, w1)"
    by (simp add: initial_def)
  show "length (calls (snd (main env argv (initial w)))) =
       (case fst (ApiClient env w) of Inl exn \<Rightarrow> 0 | Inr client \<Rightarrow> 1)"
  proof (cases built)
    case (Inl exn)
    with a have "ApiClient env (world (initial w)) = (Inl exn, w1)"
      by simp
    from get_stock_data_client_raises [OF this] a' Inl show ?thesis
      by (simp add: main_calls initial_def split del: if_split)
  next
    case (Inr client)
    with a have "ApiClient env (world (initial w)) = (Inr client, w1)"
      by simp
    from get_stock_data_called [OF this] a' Inr show ?thesis
      by (simp add: main_calls initial_def split del: if_split)
  qed
qed

text \<open>An instance: the full run with no argument, ending normally.\<close>

theorem at_most_one_outbound_call_witness:
  "(step (stub (Inr ''{}'')))\<^sup>*\<^sup>* (Start [''yahoo_finance.py''], (initial (0::nat)))
      (Exit, \<lparr>world = Suc 0, calls = [(''YahooFinance/get_stock_chart'', (query
      ''2330.TW'' ''1d'' ''1y''))], stdout = [''{}'']\<rparr>)
   \<and> length (calls \<lparr>world = Suc 0, calls = [(''YahooFinance/get_stock_chart'',
       (query ''2330.TW'' ''1d'' ''1y''))], stdout = [''{}'']\<rparr>) \<le> 1
   \<and> (step (stub (Inr ''{}'')))\<^sup>*\<^sup>* (Start [''yahoo_finance.py''], (initial
       (0::nat))) (CallApi () ''2330.TW'' ''1d'' ''1y'', (initial (0::nat)))
   \<and> (step (stub (Inr ''{}'')))\<^sup>+\<^sup>+ (CallApi () ''2330.TW'' ''1d'' ''1y'',
       (initial (0::nat))) (Exit, \<lparr>world = Suc 0, calls =
       [(''YahooFinance/get_stock_chart'', (query ''2330.TW'' ''1d'' ''1y''))], stdout =
       [''{}'']\<rparr>)
   \<and> calls \<lparr>world = Suc 0, calls = [(''YahooFinance/get_stock_chart'', (query
       ''2330.TW'' ''1d'' ''1y''))], stdout = [''{}'']\<rparr> =
       [(''YahooFinance/get_stock_chart'', (query ''2330.TW'' ''1d'' ''1y''))]
   \<and> length (calls (snd (main (stub (Inr ''{}'')) [''yahoo_finance.py''] (initial
       (0::nat))))) = 1"
proof -
  note inst = at_most_one_outbound_call
    [where env = "(stub (Inr ''{}''))" and argv = "[''yahoo_finance.py'']" and w = "0::nat" and
        c = Exit
       and s = "\<lparr>world = Suc 0, calls = [(''YahooFinance/get_stock_chart'', (query
           ''2330.TW'' ''1d'' ''1y''))], stdout = [''{}'']\<rparr>"]
  have st0: "step (stub (Inr ''{}'')) (Start [''yahoo_finance.py''], (initial (0::nat)))
      (NewClient ''2330.TW'' ''1d'' ''1y'', (initial (0::nat)))"
    using step.args [where env = "(stub (Inr ''{}''))" and argv = "[''yahoo_finance.py'']" and s
        = "(initial (0::nat))"]
    by simp
  have st1: "step (stub (Inr ''{}'')) (NewClient ''2330.TW'' ''1d'' ''1y'', (initial (0::nat)))
      (CallApi () ''2330.TW'' ''1d'' ''1y'', (initial (0::nat)))"
    using step.client_built [where env = "(stub (Inr ''{}''))" and s = "(initial (0::nat))" and
        client = "()"
        and ?w1.0 = "0::nat" and symbol = "''2330.TW''" and interval = "''1d''"
        and range' = "''1y''"]
    by (simp add: initial_def)
  have st2: "step (stub (Inr ''{}'')) (CallApi () ''2330.TW'' ''1d'' ''1y'', (initial (0::nat)))
      (Dumps ''{}'', \<lparr>world = Suc 0, calls = [(''YahooFinance/get_stock_chart'', (query
      ''2330.TW'' ''1d'' ''1y''))], stdout = []\<rparr>)"
    using step.call_returns [where env = "(stub (Inr ''{}''))" and s = "(initial (0::nat))" and
        client = "()"
        and ?w2.0 = "Suc 0" and symbol = "''2330.TW''" and interval = "''1d''"
        and range' = "''1y''" and response = "''{}''"]
    by (simp add: initial_def)
  have st3: "step (stub (Inr ''{}'')) (Dumps ''{}'', \<lparr>world = Suc 0, calls =
      [(''YahooFinance/get_stock_chart'', (query ''2330.TW'' ''1d'' ''1y''))], stdout =
      []\<rparr>) (Print ''{}'', \<lparr>world = Suc 0, calls =
      [(''YahooFinance/get_stock_chart'', (query ''2330.TW'' ''1d'' ''1y''))], stdout =
      []\<rparr>)"
    by (rule step.dumps_returns) simp
  have st4: "step (stub (Inr ''{}'')) (Print ''{}'', \<lparr>world = Suc 0, calls =
      [(''YahooFinance/get_stock_chart'', (query ''2330.TW'' ''1d'' ''1y''))], stdout =
      []\<rparr>) (Exit, \<lparr>world = Suc 0, calls = [(''YahooFinance/get_stock_chart'',
      (query ''2330.TW'' ''1d'' ''1y''))], stdout = [''{}'']\<rparr>)"
    using step.print [of "(stub (Inr ''{}''))" "''{}''" "\<lparr>world = Suc 0, calls =
        [(''YahooFinance/get_stock_chart'', (query ''2330.TW'' ''1d'' ''1y''))], stdout =
        []\<rparr>"]
    by simp
  have to_call: "(step (stub (Inr ''{}'')))\<^sup>*\<^sup>* (Start [''yahoo_finance.py''],
      (initial (0::nat))) (CallApi () ''2330.TW'' ''1d'' ''1y'', (initial (0::nat)))"
    using st0 st1 by (rule converse_rtranclp_into_rtranclp [OF _ r_into_rtranclp])
  have from_call: "(step (stub (Inr ''{}'')))\<^sup>+\<^sup>+ (CallApi () ''2330.TW'' ''1d''
      ''1y'', (initial (0::nat))) (Exit, \<lparr>world = Suc 0, calls =
      [(''YahooFinance/get_stock_chart'', (query ''2330.TW'' ''1d'' ''1y''))], stdout =
      [''{}'']\<rparr>)"
    using st2 st3 st4
    by (rule tranclp.trancl_into_trancl [OF tranclp.trancl_into_trancl [OF tranclp.r_into_trancl]])
  have reach: "(step (stub (Inr ''{}'')))\<^sup>*\<^sup>* (Start [''yahoo_finance.py''],
      (initial (0::nat))) (Exit, \<lparr>world = Suc 0, calls =
      [(''YahooFinance/get_stock_chart'', (query ''2330.TW'' ''1d'' ''1y''))], stdout =
      [''{}'']\<rparr>)"
    using to_call tranclp_into_rtranclp [OF from_call] by (rule rtranclp_trans)
  have bound: "length (calls \<lparr>world = Suc 0, calls = [(''YahooFinance/get_stock_chart'',
      (query ''2330.TW'' ''1d'' ''1y''))], stdout = [''{}'']\<rparr>) \<le> 1"
    by (rule conjunct1 [OF inst, rule_format, OF reach])
  have exact: "calls \<lparr>world = Suc 0, calls = [(''YahooFinance/get_stock_chart'', (query
      ''2330.TW'' ''1d'' ''1y''))], stdout = [''{}'']\<rparr> =
      [(''YahooFinance/get_stock_chart'', (query ''2330.TW'' ''1d'' ''1y''))]"
    by (rule conjunct1 [OF conjunct2 [OF inst], rule_format, OF conjI [OF to_call from_call]])
  have total: "length (calls (snd (main (stub (Inr ''{}'')) [''yahoo_finance.py''] (initial
      (0::nat))))) = 1"
    using conjunct2 [OF conjunct2 [OF conjunct2 [OF inst]]] by simp
  show ?thesis
    by (rule conjI [OF reach conjI [OF bound conjI [OF to_call
          conjI [OF from_call conjI [OF exact total]]]]])
qed

end
